theory Spec2Isabelle
  imports Complex_Main "HOL-Library.Multiset"
begin

section \<open>Data model\<close>

text \<open>
  The development embeds \<^verbatim>\<open>src/components/CampaignAnalytics.tsx\<close>: the data loader hook
  \<^verbatim>\<open>useCampaignData\<close>, the aggregation done by the page component, and the sort and export
  handlers of \<^verbatim>\<open>CallLogTable\<close>.

  Numbers. A call duration arrives from the data store as a finite number or as null. Finite
  numbers are modelled by their exact value, a rational; the rounding of binary floating point
  is not modelled. The one place where the page can produce a non-finite number is the division
  by the number of calls, so the result of a division is a \<open>jsnum\<close>, which has the values the
  language gives a division by zero.
\<close>

datatype jsnum = Finite rat | PosInfinity | NegInfinity | NaN

text \<open>The operator \<^verbatim>\<open>/\<close> on two finite numbers.\<close>

definition js_divide :: "rat \<Rightarrow> rat \<Rightarrow> jsnum" where
  "js_divide a b =
     (if b = 0 then (if a = 0 then NaN else if 0 < a then PosInfinity else NegInfinity)
      else Finite (a / b))"

text \<open>
  Modelled from the spec: the type \<^verbatim>\<open>CallLog\<close> is declared in \<^verbatim>\<open>utils/db\<close>, which is
  not part of the sources at hand. The fields are the ones the component reads; the spec's data
  model lists them and says which are nullable. A field that the component guards with
  \<^verbatim>\<open>||\<close>, \<^verbatim>\<open>?.\<close> or \<^verbatim>\<open>&&\<close> is an option (\<open>None\<close> is null).
\<close>

record CallLog =
  log_id :: "int option"
  phoneNumber :: string
  firstName :: string
  callId :: string
  disconnection_reason :: "string option"
  call_duration :: "rat option"
  user_sentiment :: "string option"
  start_time :: "string option"
  call_summary :: "string option"
  call_transcript :: "string option"
  call_recording :: "string option"

text \<open>Modelled from the spec: the campaign record of \<^verbatim>\<open>utils/db\<close>; only its title is read.\<close>

record Campaign =
  campaign_id :: int
  title :: "string option"

text \<open>
  \<^verbatim>\<open>x || d\<close> on a nullable string: null and the empty string are falsy.
  \<^verbatim>\<open>x || 0\<close> on a nullable number: null and zero are falsy, and both give zero.
\<close>

definition or_string :: "string option \<Rightarrow> string \<Rightarrow> string" where
  "or_string x d = (case x of None \<Rightarrow> d | Some s \<Rightarrow> if s = [] then d else s)"

definition or_zero :: "rat option \<Rightarrow> rat" where
  "or_zero x = (case x of None \<Rightarrow> 0 | Some v \<Rightarrow> if v = 0 then 0 else v)"

section \<open>Number formatting\<close>

text \<open>
  \<^verbatim>\<open>Number.prototype.toFixed(2)\<close>. A value that is not finite is printed by name. A finite
  value \<open>x\<close> is printed from the integer \<open>n\<close> for which \<open>n / 100\<close> is closest to \<open>\<bar>x\<bar>\<close>, the
  larger one on a tie, with a leading minus sign when \<open>x < 0\<close>. (Magnitudes of \<open>10^21\<close> and above,
  which the language prints in exponent notation, are outside this model.)
\<close>

definition digit_char :: "nat \<Rightarrow> char" where
  "digit_char d = ''0123456789'' ! (d mod 10)"

fun string_of_nat :: "nat \<Rightarrow> string" where
  "string_of_nat n =
     (if n < 10 then [digit_char n] else string_of_nat (n div 10) @ [digit_char (n mod 10)])"

declare string_of_nat.simps [simp del]

definition toFixed2_finite :: "rat \<Rightarrow> string" where
  "toFixed2_finite x =
     (let n = nat \<lfloor>\<bar>x\<bar> * 100 + 1 / 2\<rfloor>
      in (if x < 0 then ''-'' else '''') @ string_of_nat (n div 100) @ ''.'' @
         [digit_char (n div 10), digit_char n])"

fun toFixed2 :: "jsnum \<Rightarrow> string" where
  "toFixed2 (Finite x) = toFixed2_finite x"
| "toFixed2 PosInfinity = ''Infinity''"
| "toFixed2 NegInfinity = ''-Infinity''"
| "toFixed2 NaN = ''NaN''"

section \<open>Aggregation (the page component)\<close>

text \<open>
  \<^verbatim>\<open>
  const totalCalls = callLogs.length;
  const answeredCalls = callLogs.filter(
    (log) => log.disconnection_reason === 'completed').length;
  const unansweredCalls = totalCalls - answeredCalls;
  const averageCallDuration =
    callLogs.reduce((sum, log) => {
      const duration = log.call_duration || 0;
      return sum + duration;
    }, 0) / totalCalls;
  \<close>
\<close>

definition totalCalls :: "CallLog list \<Rightarrow> int" where
  "totalCalls callLogs = int (length callLogs)"

definition answeredCalls :: "CallLog list \<Rightarrow> int" where
  "answeredCalls callLogs =
     int (length (filter (\<lambda>log. disconnection_reason log = Some ''completed'') callLogs))"

definition unansweredCalls :: "CallLog list \<Rightarrow> int" where
  "unansweredCalls callLogs = totalCalls callLogs - answeredCalls callLogs"

definition durationSum :: "CallLog list \<Rightarrow> rat" where
  "durationSum callLogs = foldl (\<lambda>sum log. sum + or_zero (call_duration log)) 0 callLogs"

definition averageCallDuration :: "CallLog list \<Rightarrow> jsnum" where
  "averageCallDuration callLogs = js_divide (durationSum callLogs) (of_int (totalCalls callLogs))"

text \<open>The value handed to the fourth stat card: \<^verbatim>\<open>`${averageCallDuration.toFixed(2)} sec`\<close>.\<close>

definition averageCallDurationCard :: "CallLog list \<Rightarrow> string" where
  "averageCallDurationCard callLogs = toFixed2 (averageCallDuration callLogs) @ '' sec''"

section \<open>Grouped counts (the chart series)\<close>

text \<open>
  \<^verbatim>\<open>
  const disconnectionReasonData = callLogs.reduce((acc, log) => {
    const reason = log.disconnection_reason || 'Unknown';
    acc[reason] = (acc[reason] || 0) + 1;
    return acc;
  }, {} as Record<string, number>);
  const disconnectionReasonChartData = Object.entries(
    disconnectionReasonData
  ).map(([name, value]) => ({ name, value }));
  \<close>
  The accumulator object is modelled by the list of its own properties in the order of their
  creation. (Labels that name an inherited property of every object, such as
  \<^verbatim>\<open>constructor\<close>, are outside this model.) Writing an existing property keeps its place;
  writing a new one appends it.
\<close>

type_synonym counter = "(string \<times> int) list"

fun obj_set :: "counter \<Rightarrow> string \<Rightarrow> int \<Rightarrow> counter" where
  "obj_set [] k v = [(k, v)]"
| "obj_set ((k', v') # ps) k v =
     (if k' = k then (k, v) # ps else (k', v') # obj_set ps k v)"

text \<open>\<^verbatim>\<open>acc[label] || 0\<close>: an absent property and a zero both give zero.\<close>

definition obj_get_or_zero :: "counter \<Rightarrow> string \<Rightarrow> int" where
  "obj_get_or_zero acc k = (case map_of acc k of None \<Rightarrow> 0 | Some v \<Rightarrow> if v = 0 then 0 else v)"

definition count_label :: "counter \<Rightarrow> string \<Rightarrow> counter" where
  "count_label acc label = obj_set acc label (obj_get_or_zero acc label + 1)"

text \<open>
  \<^verbatim>\<open>Object.entries\<close> lists the properties whose key is an array index (the canonical decimal
  form of an integer below \<open>2^32 - 1\<close>) first, by ascending index, and the other string keys after
  them in the order of their creation.
\<close>

definition is_digit :: "char \<Rightarrow> bool" where
  "is_digit c = (c \<in> set ''0123456789'')"

definition digits_value :: "string \<Rightarrow> int" where
  "digits_value s = foldl (\<lambda>n c. 10 * n + (of_char c - 48)) 0 s"

definition is_array_index :: "string \<Rightarrow> bool" where
  "is_array_index s =
     (case s of [] \<Rightarrow> False
      | c # cs \<Rightarrow> list_all is_digit s \<and> (if c = CHR ''0'' then cs = [] else True) \<and>
                 digits_value s < 4294967295)"

definition Object_entries :: "counter \<Rightarrow> (string \<times> int) list" where
  "Object_entries obj =
     sort_key (\<lambda>p. digits_value (fst p)) (filter (\<lambda>p. is_array_index (fst p)) obj) @
     filter (\<lambda>p. \<not> is_array_index (fst p)) obj"

definition disconnectionReasonData :: "CallLog list \<Rightarrow> counter" where
  "disconnectionReasonData callLogs =
     foldl (\<lambda>acc log. count_label acc (or_string (disconnection_reason log) ''Unknown'')) []
       callLogs"

text \<open>A chart datum \<^verbatim>\<open>{ name, value }\<close> is the pair of the label and its count.\<close>

definition disconnectionReasonChartData :: "CallLog list \<Rightarrow> (string \<times> int) list" where
  "disconnectionReasonChartData callLogs =
     map (\<lambda>(name, val). (name, val)) (Object_entries (disconnectionReasonData callLogs))"

definition sentimentData :: "CallLog list \<Rightarrow> counter" where
  "sentimentData callLogs =
     foldl (\<lambda>acc log. count_label acc (or_string (user_sentiment log) ''Unknown'')) [] callLogs"

definition sentimentChartData :: "CallLog list \<Rightarrow> (string \<times> int) list" where
  "sentimentChartData callLogs =
     map (\<lambda>(name, val). (name, val)) (Object_entries (sentimentData callLogs))"

section \<open>The call-log table: rows and export records\<close>

text \<open>
  A value of an export record is a string, null or undefined. A nullable string field of the log
  is exported as it is stored.
\<close>

datatype js_value = JString string | JNull | JUndefined

definition js_of :: "string option \<Rightarrow> js_value" where
  "js_of x = (case x of None \<Rightarrow> JNull | Some s \<Rightarrow> JString s)"

text \<open>
  \<^verbatim>\<open>
  const exportData = sortedLogs.map(log => ({
    'Phone Number': log.phoneNumber,
    'First Name': log.firstName,
    'Call ID': log.callId,
    'Disconnection Reason': log.disconnection_reason || 'N/A',
    'Duration (sec)': log.call_duration?.toFixed(2),
    'Sentiment': log.user_sentiment,
    'Start Time': log.start_time,
    'Call Summary': log.call_summary,
    'Call Transcript': log.call_transcript,
    'Call Recording URL': log.call_recording,
  }));
  \<close>
\<close>

record ExportRecord =
  Phone_Number :: js_value
  First_Name :: js_value
  Call_ID :: js_value
  Disconnection_Reason :: js_value
  Duration_sec :: js_value
  Sentiment :: js_value
  Start_Time :: js_value
  Call_Summary :: js_value
  Call_Transcript :: js_value
  Call_Recording_URL :: js_value

definition exportRecord :: "CallLog \<Rightarrow> ExportRecord" where
  "exportRecord row =
     \<lparr>Phone_Number = JString (phoneNumber row),
      First_Name = JString (firstName row),
      Call_ID = JString (callId row),
      Disconnection_Reason = JString (or_string (disconnection_reason row) ''N/A''),
      Duration_sec =
        (case call_duration row of None \<Rightarrow> JUndefined | Some d \<Rightarrow> JString (toFixed2 (Finite d))),
      Sentiment = js_of (user_sentiment row),
      Start_Time = js_of (start_time row),
      Call_Summary = js_of (call_summary row),
      Call_Transcript = js_of (call_transcript row),
      Call_Recording_URL = js_of (call_recording row)\<rparr>"

text \<open>
  A table row: the text of its six cells and the log its click handler passes on. A null or
  undefined expression renders as no text.
\<close>

record TableRow =
  cells :: "string list"
  onClick :: CallLog

definition tableRow :: "CallLog \<Rightarrow> TableRow" where
  "tableRow row =
     \<lparr>cells =
        [phoneNumber row, firstName row, callId row,
         or_string (disconnection_reason row) ''N/A'',
         (case call_duration row of None \<Rightarrow> [] | Some d \<Rightarrow> toFixed2 (Finite d)) @ '' sec'',
         (case user_sentiment row of None \<Rightarrow> [] | Some s \<Rightarrow> s)],
      onClick = row\<rparr>"

section \<open>The call-log table: sorting\<close>

text \<open>
  \<^verbatim>\<open>
  sortedData.sort((a, b) => {
    const aValue = a.call_duration || 0;
    const bValue = b.call_duration || 0;
    return direction === 'asc' ? aValue - bValue : bValue - aValue;
  });
  \<close>
\<close>

datatype direction = Asc | Desc

definition compareLogs :: "direction \<Rightarrow> CallLog \<Rightarrow> CallLog \<Rightarrow> rat" where
  "compareLogs direction a b =
     (let aValue = or_zero (call_duration a); bValue = or_zero (call_duration b)
      in if direction = Asc then aValue - bValue else bValue - aValue)"

text \<open>
  \<^verbatim>\<open>Array.prototype.sort\<close> with a comparator is a stable sort: an element goes before
  another when the comparator is negative, and elements that compare equal keep their order.
  For a comparator that is a consistent ordering the result is determined by that, whatever the
  engine's algorithm; it is computed here by insertion from the right.
\<close>

fun insert_sorted :: "('a \<Rightarrow> 'a \<Rightarrow> rat) \<Rightarrow> 'a \<Rightarrow> 'a list \<Rightarrow> 'a list" where
  "insert_sorted cmp x [] = [x]"
| "insert_sorted cmp x (y # ys) =
     (if cmp x y \<le> 0 then x # y # ys else y # insert_sorted cmp x ys)"

definition Array_sort :: "('a \<Rightarrow> 'a \<Rightarrow> rat) \<Rightarrow> 'a list \<Rightarrow> 'a list" where
  "Array_sort cmp xs = foldr (insert_sorted cmp) xs []"

text \<open>
  The state of \<^verbatim>\<open>CallLogTable\<close>. Arrays are objects: \<^verbatim>\<open>sortedLogs\<close> starts as the very
  array passed in \<^verbatim>\<open>callLogs\<close>, and \<^verbatim>\<open>sort\<close> works in place. So the state holds a store of
  arrays, addressed by position, and the prop and the state variable are addresses into it.
  The sort key of \<^verbatim>\<open>sortConfig\<close> is the constant \<^verbatim>\<open>'call_duration'\<close>; its direction is
  \<open>None\<close> for null.
\<close>

record TableState =
  arrays :: "CallLog list list"
  props_callLogs :: nat
  sortedLogs :: nat
  sortConfig :: "direction option"

definition valid_refs :: "TableState \<Rightarrow> bool" where
  "valid_refs st = (props_callLogs st < length (arrays st) \<and> sortedLogs st < length (arrays st))"

definition fetched :: "TableState \<Rightarrow> CallLog list" where
  "fetched st = arrays st ! props_callLogs st"

definition displayed :: "TableState \<Rightarrow> CallLog list" where
  "displayed st = arrays st ! sortedLogs st"

text \<open>
  Mounting: \<^verbatim>\<open>useState<CallLog[]>(callLogs)\<close> and a direction of null. When the prop
  \<^verbatim>\<open>callLogs\<close> is a new array, the effect \<^verbatim>\<open>setSortedLogs(callLogs)\<close> runs; nothing
  else is set there.
\<close>

definition mount_table :: "CallLog list \<Rightarrow> TableState" where
  "mount_table logs = \<lparr>arrays = [logs], props_callLogs = 0, sortedLogs = 0, sortConfig = None\<rparr>"

definition callLogsChanged :: "CallLog list \<Rightarrow> TableState \<Rightarrow> TableState" where
  "callLogsChanged logs st =
     (let a = length (arrays st)
      in st\<lparr>arrays := arrays st @ [logs], props_callLogs := a, sortedLogs := a\<rparr>)"

text \<open>
  \<^verbatim>\<open>
  const handleSort = () => {
    let direction: 'asc' | 'desc' | null = 'asc';
    if (sortConfig.direction === 'asc') {
      direction = 'desc';
    } else if (sortConfig.direction === 'desc') {
      direction = null;
    }
    setSortConfig({ key: 'call_duration', direction });
    let sortedData = [...sortedLogs];
    if (direction === null) {
      setSortedLogs(callLogs);
    } else {
      sortedData.sort(...);
      setSortedLogs(sortedData);
    }
  };
  \<close>
  The spread allocates a new array; the sort overwrites the array at that address.
\<close>

definition next_direction :: "direction option \<Rightarrow> direction option" where
  "next_direction d = (if d = Some Asc then Some Desc else if d = Some Desc then None else Some Asc)"

definition handleSort :: "TableState \<Rightarrow> TableState" where
  "handleSort st =
     (let direction = next_direction (sortConfig st);
          sortedData = length (arrays st);
          st1 = st\<lparr>sortConfig := direction, arrays := arrays st @ [arrays st ! sortedLogs st]\<rparr>
      in case direction of
           None \<Rightarrow> st1\<lparr>sortedLogs := props_callLogs st\<rparr>
         | Some d \<Rightarrow>
             st1\<lparr>arrays := (arrays st1)[sortedData := Array_sort (compareLogs d) (arrays st1 ! sortedData)],
                 sortedLogs := sortedData\<rparr>)"

text \<open>What the table shows and what the export builds, both from \<^verbatim>\<open>sortedLogs\<close>.\<close>

definition tbody :: "TableState \<Rightarrow> TableRow list" where
  "tbody st = map tableRow (arrays st ! sortedLogs st)"

definition exportData :: "TableState \<Rightarrow> ExportRecord list" where
  "exportData st = map exportRecord (arrays st ! sortedLogs st)"

text \<open>
  \<^verbatim>\<open>handleExport\<close> hands the records to the spreadsheet library under the sheet name
  \<^verbatim>\<open>Call Logs\<close> and a file name made from the current date, which is a parameter here.
\<close>

definition handleExport :: "string \<Rightarrow> TableState \<Rightarrow> ExportRecord list \<times> string \<times> string" where
  "handleExport today st = (exportData st, ''Call Logs'', ''call_logs_'' @ today @ ''.xlsx'')"

text \<open>The events of the table, and a run of the component over a list of them.\<close>

datatype TableEvent = ClickSort | ClickExport | CallLogsChanged "CallLog list"

fun table_step :: "TableState \<Rightarrow> TableEvent \<Rightarrow> TableState" where
  "table_step st ClickSort = handleSort st"
| "table_step st ClickExport = st"
| "table_step st (CallLogsChanged logs) = callLogsChanged logs st"

definition table_run :: "CallLog list \<Rightarrow> TableEvent list \<Rightarrow> TableState" where
  "table_run logs evs = foldl table_step (mount_table logs) evs"

text \<open>
  The spec's words for the sorted display: a stable sort of the source list by duration, that is
  a rearrangement of the source, ordered by the key in the given direction, in which the logs of
  equal key are in their order in the source.
\<close>

definition sort_value :: "CallLog \<Rightarrow> rat" where
  "sort_value row = or_zero (call_duration row)"

definition ordered_by :: "direction \<Rightarrow> CallLog list \<Rightarrow> bool" where
  "ordered_by d logs =
     sorted_wrt (\<lambda>x y. if d = Asc then x \<le> y else y \<le> x) (map sort_value logs)"

definition stable_sort_of :: "direction \<Rightarrow> CallLog list \<Rightarrow> CallLog list \<Rightarrow> bool" where
  "stable_sort_of d src out =
     (mset out = mset src \<and> ordered_by d out \<and>
      list_all (\<lambda>k. filter (\<lambda>x. sort_value x = k) out = filter (\<lambda>x. sort_value x = k) src)
        (map sort_value src))"

text \<open>
  The invariant of the table: the addresses are valid, and the display is the fetched list or,
  when a direction is set, possibly the fetched list sorted in that direction.
\<close>

definition table_inv :: "TableState \<Rightarrow> bool" where
  "table_inv st =
     (valid_refs st \<and>
      (displayed st = fetched st \<or>
       (case sortConfig st of
          None \<Rightarrow> False
        | Some d \<Rightarrow> displayed st = Array_sort (compareLogs d) (fetched st))))"

section \<open>The data loader and the page\<close>

text \<open>
  \<^verbatim>\<open>
  const [callLogs, setCallLogs] = useState<CallLog[]>([]);
  const [campaignTitle, setCampaignTitle] = useState('');
  const [loading, setLoading] = useState(true);
  const [error, setError] = useState<string | null>(null);
  useEffect(() => {
    const fetchData = async () => {
      if (id) {
        try {
          const [logs, campaign] = await Promise.all([
            getCallLogs(parseInt(id, 10)), getCampaign(parseInt(id, 10))]);
          setCallLogs(logs);
          setCampaignTitle(campaign?.title || 'Campaign');
        } catch (err) {
          setError('Failed to load campaign data. Please try again.');
        } finally {
          setLoading(false);
        }
      }
    };
    fetchData();
  }, [id]);
  \<close>
  The hook's four state variables, with the part of the environment that drives them: the
  \<^verbatim>\<open>id\<close> of the current render (\<open>None\<close> for undefined), the requests that have been issued
  and not yet settled, and every request issued so far. A request is recorded by the \<^verbatim>\<open>id\<close>
  it was issued for; the two store calls of one \<^verbatim>\<open>Promise.all\<close> are one request.
\<close>

record LoaderState =
  callLogs :: "CallLog list"
  campaignTitle :: string
  loading :: bool
  error :: "string option"
  current_id :: "string option"
  in_flight :: "string list"
  issued :: "string list"

text \<open>\<^verbatim>\<open>if (id)\<close>: undefined and the empty string are falsy, and then nothing at all is done.\<close>

definition fetchData :: "string option \<Rightarrow> LoaderState \<Rightarrow> LoaderState" where
  "fetchData ident st =
     (case ident of
        None \<Rightarrow> st
      | Some s \<Rightarrow> if s = [] then st
                  else st\<lparr>in_flight := in_flight st @ [s], issued := issued st @ [s]\<rparr>)"

definition useCampaignData :: "string option \<Rightarrow> LoaderState" where
  "useCampaignData ident =
     fetchData ident
       \<lparr>callLogs = [], campaignTitle = [], loading = True, error = None,
        current_id = ident, in_flight = [], issued = []\<rparr>"

text \<open>
  The outcome of a request: both store calls fulfilled, with the logs and the campaign (or null),
  or one of them rejected.
\<close>

datatype Settlement = Fulfilled "CallLog list" "Campaign option" | Rejected

definition settle :: "Settlement \<Rightarrow> LoaderState \<Rightarrow> LoaderState" where
  "settle outcome st =
     (case outcome of
        Fulfilled logs campaign \<Rightarrow>
          st\<lparr>callLogs := logs,
             campaignTitle :=
               or_string (case campaign of None \<Rightarrow> None | Some c \<Rightarrow> title c) ''Campaign'',
             loading := False\<rparr>
      | Rejected \<Rightarrow>
          st\<lparr>error := Some ''Failed to load campaign data. Please try again.'',
             loading := False\<rparr>)"

text \<open>
  The events of the hook: a render with another \<^verbatim>\<open>id\<close>, which runs the effect again, and the
  settling of the request at a position of the requests in flight. No request is ever cancelled,
  so they settle in any order. An event naming a request that is not in flight cannot happen and
  changes nothing.
\<close>

datatype LoaderEvent = IdChanged "string option" | Settled nat Settlement

fun loader_step :: "LoaderState \<Rightarrow> LoaderEvent \<Rightarrow> LoaderState" where
  "loader_step st (IdChanged ident) =
     (if ident = current_id st then st else fetchData ident (st\<lparr>current_id := ident\<rparr>))"
| "loader_step st (Settled k outcome) =
     (if k < length (in_flight st)
      then settle outcome (st\<lparr>in_flight := take k (in_flight st) @ drop (Suc k) (in_flight st)\<rparr>)
      else st)"

definition loader_run :: "string option \<Rightarrow> LoaderEvent list \<Rightarrow> LoaderState" where
  "loader_run ident evs = foldl loader_step (useCampaignData ident) evs"

text \<open>
  What \<^verbatim>\<open>CampaignAnalytics\<close> returns: the loading indicator while \<^verbatim>\<open>loading\<close>, else the
  error panel when \<^verbatim>\<open>error\<close> is truthy, else the dashboard with its four stat cards, its two
  chart series and the logs handed to the table.
\<close>

record Dashboard =
  heading :: string
  card_total :: int
  card_answered :: int
  card_unanswered :: int
  card_average :: string
  chart_reasons :: "(string \<times> int) list"
  chart_sentiment :: "(string \<times> int) list"
  table_logs :: "CallLog list"

datatype PageView = LoadingIndicator | ErrorPanel string | DashboardView Dashboard

definition dashboard :: "LoaderState \<Rightarrow> Dashboard" where
  "dashboard st =
     \<lparr>heading = campaignTitle st @ '' Analytics'',
      card_total = totalCalls (callLogs st),
      card_answered = answeredCalls (callLogs st),
      card_unanswered = unansweredCalls (callLogs st),
      card_average = averageCallDurationCard (callLogs st),
      chart_reasons = disconnectionReasonChartData (callLogs st),
      chart_sentiment = sentimentChartData (callLogs st),
      table_logs = callLogs st\<rparr>"

definition CampaignAnalytics :: "LoaderState \<Rightarrow> PageView" where
  "CampaignAnalytics st =
     (if loading st then LoadingIndicator
      else case error st of
             None \<Rightarrow> DashboardView (dashboard st)
           | Some e \<Rightarrow> if e = [] then DashboardView (dashboard st) else ErrorPanel e)"

text \<open>The events in which the \<^verbatim>\<open>id\<close> stays undefined.\<close>

fun keeps_id_undefined :: "LoaderEvent \<Rightarrow> bool" where
  "keeps_id_undefined (IdChanged ident) = (ident = None)"
| "keeps_id_undefined (Settled k outcome) = True"

text \<open>
  The loader at rest with an undefined \<^verbatim>\<open>id\<close>: still loading, nothing issued, nothing in
  flight.
\<close>

definition loader_idle :: "LoaderState \<Rightarrow> bool" where
  "loader_idle st =
     (loading st \<and> current_id st = None \<and> in_flight st = [] \<and> issued st = [])"

section \<open>Sample data\<close>

definition sample_log :: "string \<Rightarrow> string option \<Rightarrow> rat option \<Rightarrow> CallLog" where
  "sample_log cid reason duration =
     \<lparr>log_id = None, phoneNumber = ''+15550100'', firstName = ''Ada'', callId = cid,
      disconnection_reason = reason, call_duration = duration, user_sentiment = None,
      start_time = None, call_summary = None, call_transcript = None, call_recording = None\<rparr>"

section \<open>Properties of the sort\<close>

lemma insert_sorted_asc:
  "insert_sorted (compareLogs Asc) x ys = insort_key sort_value x ys"
  by (induction ys) (simp_all add: compareLogs_def sort_value_def)

lemma insert_sorted_desc:
  "insert_sorted (compareLogs Desc) x ys = insort_key (\<lambda>a. - sort_value a) x ys"
  by (induction ys) (simp_all add: compareLogs_def sort_value_def)

lemma Array_sort_asc: "Array_sort (compareLogs Asc) xs = sort_key sort_value xs"
  by (induction xs) (simp_all add: Array_sort_def insert_sorted_asc)

lemma Array_sort_desc: "Array_sort (compareLogs Desc) xs = sort_key (\<lambda>a. - sort_value a) xs"
  by (induction xs) (simp_all add: Array_sort_def insert_sorted_desc)

lemma mset_Array_sort: "mset (Array_sort (compareLogs d) xs) = mset xs"
  by (cases d) (simp_all add: Array_sort_asc Array_sort_desc)

lemma sorted_neg_iff:
  "sorted (map (\<lambda>a. - sort_value a) xs) = sorted_wrt (\<lambda>x y. y \<le> x) (map sort_value xs)"
  by (induction xs) auto

lemma sorted_Array_sort_asc: "sorted (map sort_value (Array_sort (compareLogs Asc) xs))"
  by (simp add: Array_sort_asc)

lemma sorted_Array_sort_desc:
  "sorted_wrt (\<lambda>x y. y \<le> x) (map sort_value (Array_sort (compareLogs Desc) xs))"
  using sorted_neg_iff [of "sort_key (\<lambda>a. - sort_value a) xs"] by (simp add: Array_sort_desc)

text \<open>Sorting downwards what was sorted upwards is sorting the original downwards.\<close>

lemma sort_desc_after_asc:
  "sort_key (\<lambda>a. - sort_value a) (sort_key sort_value xs) = sort_key (\<lambda>a. - sort_value a) xs"
proof (rule properties_for_sort_key)
  show "mset (sort_key (\<lambda>a. - sort_value a) xs) = mset (sort_key sort_value xs)"
    by simp
  show "sorted (map (\<lambda>a. - sort_value a) (sort_key (\<lambda>a. - sort_value a) xs))"
    by simp
  fix k
  have "filter (\<lambda>x. sort_value x = sort_value k) (sort_key sort_value xs)
      = filter (\<lambda>x. sort_value x = sort_value k) xs"
    by (rule sort_key_stable)
  moreover have "filter (\<lambda>x. - sort_value x = - sort_value k) (sort_key (\<lambda>a. - sort_value a) xs)
      = filter (\<lambda>x. - sort_value x = - sort_value k) xs"
    by (rule sort_key_stable)
  ultimately show "filter (\<lambda>x. - sort_value k = - sort_value x) (sort_key (\<lambda>a. - sort_value a) xs)
      = filter (\<lambda>x. - sort_value k = - sort_value x) (sort_key sort_value xs)"
    by (simp add: eq_commute)
qed

lemma Array_sort_desc_asc:
  "Array_sort (compareLogs Desc) (Array_sort (compareLogs Asc) xs) = Array_sort (compareLogs Desc) xs"
  by (simp add: Array_sort_asc Array_sort_desc sort_desc_after_asc)

lemma stable_sort_of_Array_sort: "stable_sort_of d xs (Array_sort (compareLogs d) xs)"
proof (cases d)
  case Asc
  then show ?thesis
    by (simp add: stable_sort_of_def ordered_by_def Array_sort_asc sort_key_stable list_all_iff)
next
  case Desc
  have "filter (\<lambda>x. - sort_value x = - k) (sort_key (\<lambda>a. - sort_value a) xs)
      = filter (\<lambda>x. - sort_value x = - k) xs" for k
    by (rule sort_key_stable)
  then have "filter (\<lambda>x. sort_value x = k) (sort_key (\<lambda>a. - sort_value a) xs)
      = filter (\<lambda>x. sort_value x = k) xs" for k
    by simp
  moreover have "sorted_wrt (\<lambda>x y. y \<le> x) (map sort_value (sort_key (\<lambda>a. - sort_value a) xs))"
    using sorted_neg_iff [of "sort_key (\<lambda>a. - sort_value a) xs"] by simp
  ultimately show ?thesis using Desc
    by (simp add: stable_sort_of_def ordered_by_def Array_sort_desc list_all_iff)
qed

section \<open>Properties of the table's transitions\<close>

lemma next_direction_cases [simp]:
  "next_direction None = Some Asc"
  "next_direction (Some Asc) = Some Desc"
  "next_direction (Some Desc) = None"
  by (simp_all add: next_direction_def)

lemma sortConfig_handleSort: "sortConfig (handleSort st) = next_direction (sortConfig st)"
  by (simp add: handleSort_def Let_def split: option.splits)

lemma props_handleSort: "props_callLogs (handleSort st) = props_callLogs st"
  by (simp add: handleSort_def Let_def split: option.splits)

lemma arrays_handleSort:
  "take (length (arrays st)) (arrays (handleSort st)) = arrays st"
  by (simp add: handleSort_def Let_def split: option.splits)

lemma length_arrays_handleSort: "length (arrays (handleSort st)) = Suc (length (arrays st))"
  by (simp add: handleSort_def Let_def split: option.splits)

lemma nth_arrays_handleSort:
  assumes "a < length (arrays st)"
  shows "arrays (handleSort st) ! a = arrays st ! a"
proof -
  have "arrays (handleSort st) ! a = take (length (arrays st)) (arrays (handleSort st)) ! a"
    using assms by simp
  then show ?thesis by (simp add: arrays_handleSort)
qed

lemma valid_refs_handleSort: "valid_refs st \<Longrightarrow> valid_refs (handleSort st)"
  by (cases "next_direction (sortConfig st)")
     (simp_all add: valid_refs_def handleSort_def Let_def)

lemma fetched_handleSort: "valid_refs st \<Longrightarrow> fetched (handleSort st) = fetched st"
  by (simp add: fetched_def props_handleSort nth_arrays_handleSort valid_refs_def)

lemma displayed_handleSort:
  "valid_refs st \<Longrightarrow>
   displayed (handleSort st) =
     (case next_direction (sortConfig st) of
        None \<Rightarrow> fetched st
      | Some d \<Rightarrow> Array_sort (compareLogs d) (displayed st))"
  by (cases "next_direction (sortConfig st)")
     (simp_all add: displayed_def fetched_def valid_refs_def handleSort_def Let_def nth_append)

lemma table_inv_mount: "table_inv (mount_table logs)"
  by (simp add: table_inv_def mount_table_def valid_refs_def displayed_def fetched_def)

lemma table_inv_callLogsChanged: "table_inv (callLogsChanged logs st)"
  by (simp add: table_inv_def callLogsChanged_def Let_def valid_refs_def displayed_def fetched_def)

lemma displayed_handleSort_inv:
  assumes "table_inv st"
  shows "displayed (handleSort st) =
     (case next_direction (sortConfig st) of
        None \<Rightarrow> fetched st
      | Some d \<Rightarrow> Array_sort (compareLogs d) (fetched st))"
proof -
  from assms have v: "valid_refs st" by (simp add: table_inv_def)
  show ?thesis
  proof (cases "sortConfig st")
    case None
    with assms have "displayed st = fetched st" by (simp add: table_inv_def)
    with None v show ?thesis by (simp add: displayed_handleSort)
  next
    case (Some d)
    show ?thesis
    proof (cases d)
      case Asc
      with Some assms have
        "displayed st = fetched st \<or> displayed st = Array_sort (compareLogs Asc) (fetched st)"
        by (simp add: table_inv_def)
      with Some Asc v show ?thesis
        by (auto simp add: displayed_handleSort Array_sort_desc_asc)
    next
      case Desc
      with Some v show ?thesis by (simp add: displayed_handleSort)
    qed
  qed
qed

lemma table_inv_handleSort:
  assumes "table_inv st"
  shows "table_inv (handleSort st)"
proof -
  from assms have v: "valid_refs st" by (simp add: table_inv_def)
  show ?thesis
    using v displayed_handleSort_inv [OF assms]
    by (cases "next_direction (sortConfig st)")
       (simp_all add: table_inv_def valid_refs_handleSort fetched_handleSort sortConfig_handleSort)
qed

lemma table_inv_step: "table_inv st \<Longrightarrow> table_inv (table_step st ev)"
  by (cases ev) (simp_all add: table_inv_handleSort table_inv_callLogsChanged)

lemma table_inv_foldl: "table_inv st \<Longrightarrow> table_inv (foldl table_step st evs)"
  by (induction evs arbitrary: st) (simp_all add: table_inv_step)

lemma table_inv_run: "table_inv (table_run logs evs)"
  by (simp add: table_run_def table_inv_foldl table_inv_mount)

lemma table_inv_None: "table_inv st \<Longrightarrow> sortConfig st = None \<Longrightarrow> displayed st = fetched st"
  by (simp add: table_inv_def)

lemma sortConfig_callLogsChanged: "sortConfig (callLogsChanged logs st) = sortConfig st"
  by (simp add: callLogsChanged_def Let_def)

lemma displayed_callLogsChanged: "displayed (callLogsChanged logs st) = logs"
  by (simp add: callLogsChanged_def Let_def displayed_def)

lemma handleSort_funpow:
  "valid_refs st \<Longrightarrow>
   valid_refs ((handleSort ^^ n) st) \<and>
   props_callLogs ((handleSort ^^ n) st) = props_callLogs st \<and>
   fetched ((handleSort ^^ n) st) = fetched st \<and>
   length (arrays st) \<le> length (arrays ((handleSort ^^ n) st)) \<and>
   take (length (arrays st)) (arrays ((handleSort ^^ n) st)) = arrays st"
proof (induction n)
  case 0
  then show ?case by simp
next
  case (Suc n)
  let ?s = "(handleSort ^^ n) st"
  from Suc have IH: "valid_refs ?s" "props_callLogs ?s = props_callLogs st"
    "fetched ?s = fetched st" "length (arrays st) \<le> length (arrays ?s)"
    "take (length (arrays st)) (arrays ?s) = arrays st"
    by simp_all
  have "take (length (arrays st)) (arrays (handleSort ?s))
      = take (length (arrays st)) (take (length (arrays ?s)) (arrays (handleSort ?s)))"
    using IH(4) by (simp add: min_def)
  also have "\<dots> = arrays st"
    by (simp add: arrays_handleSort IH(5))
  finally have "take (length (arrays st)) (arrays (handleSort ?s)) = arrays st" .
  with IH show ?case
    by (simp add: valid_refs_handleSort props_handleSort fetched_handleSort
        length_arrays_handleSort)
qed

section \<open>Properties of the data loader\<close>

lemma loader_idle_initial: "loader_idle (useCampaignData None)"
  by (simp add: loader_idle_def useCampaignData_def fetchData_def)

lemma loader_idle_step:
  "loader_idle st \<Longrightarrow> keeps_id_undefined ev \<Longrightarrow> loader_step st ev = st"
  by (cases ev) (simp_all add: loader_idle_def)

lemma loader_idle_foldl:
  "list_all keeps_id_undefined evs \<Longrightarrow> loader_idle st \<Longrightarrow> loader_idle (foldl loader_step st evs)"
  by (induction evs arbitrary: st) (simp_all add: loader_idle_step)

section \<open>Worked examples\<close>

text \<open>
  The spec's example: a completed call of 10 seconds and an unanswered call with no duration
  give a total of 2, one answered, one unanswered and an average card of \<^verbatim>\<open>5.00 sec\<close>.
\<close>

lemma aggregate_example:
  "totalCalls [sample_log ''c1'' (Some ''completed'') (Some 10),
               sample_log ''c2'' (Some ''no-answer'') None] = 2"
  "answeredCalls [sample_log ''c1'' (Some ''completed'') (Some 10),
                  sample_log ''c2'' (Some ''no-answer'') None] = 1"
  "unansweredCalls [sample_log ''c1'' (Some ''completed'') (Some 10),
                    sample_log ''c2'' (Some ''no-answer'') None] = 1"
  by (simp_all add: totalCalls_def answeredCalls_def unansweredCalls_def sample_log_def)

lemma average_example:
  "averageCallDurationCard [sample_log ''c1'' (Some ''completed'') (Some 10),
                            sample_log ''c2'' (Some ''no-answer'') None] = ''5.00 sec''"
  by code_simp

text \<open>
  A label that is an array index comes first in the chart series, whenever it was first seen.
\<close>

lemma group_index_label_example:
  "disconnectionReasonChartData
     [sample_log ''c1'' (Some ''busy'') None, sample_log ''c2'' (Some ''7'') None,
      sample_log ''c3'' (Some ''busy'') None] = [(''7'', 1), (''busy'', 2)]"
  by (simp add: disconnectionReasonChartData_def disconnectionReasonData_def count_label_def
      obj_get_or_zero_def or_string_def Object_entries_def is_array_index_def is_digit_def
      digits_value_def sample_log_def)

section \<open>Claims\<close>

text \<open>
  C7. For every list of call logs, answered plus unanswered is the total: the total is the
  length of the list, answered counts the logs whose disconnection reason is exactly the string
  \<^verbatim>\<open>completed\<close>, and unanswered is the total minus answered. The comparison is exact: a list
  whose reasons are all \<^verbatim>\<open>Completed\<close>, or all null, has no answered call.
\<close>

theorem answered_plus_unanswered_is_total:
  "answeredCalls logs + unansweredCalls logs = totalCalls logs \<and>
   totalCalls logs = int (length logs) \<and>
   answeredCalls logs =
     int (length (filter (\<lambda>l. disconnection_reason l = Some ''completed'') logs)) \<and>
   unansweredCalls logs = totalCalls logs - answeredCalls logs \<and>
   answeredCalls (map (\<lambda>l. l\<lparr>disconnection_reason := Some ''Completed''\<rparr>) logs) = 0 \<and>
   answeredCalls (map (\<lambda>l. l\<lparr>disconnection_reason := None\<rparr>) logs) = 0"
  by (simp add: unansweredCalls_def totalCalls_def answeredCalls_def filter_map comp_def)

text \<open>
  C1. The claim says that for an empty list the average-duration card shows a defined fallback
  and not the not-a-number value. The page divides by the number of calls with no guard: after
  a fetch that returns no logs it shows the dashboard, the average is \<open>NaN\<close>, and the card reads
  \<^verbatim>\<open>NaN sec\<close>.
\<close>

theorem average_card_of_empty_list_is_NaN:
  "CampaignAnalytics (loader_run (Some ''7'') [Settled 0 (Fulfilled [] None)]) =
     DashboardView (dashboard (loader_run (Some ''7'') [Settled 0 (Fulfilled [] None)])) \<and>
   callLogs (loader_run (Some ''7'') [Settled 0 (Fulfilled [] None)]) = [] \<and>
   averageCallDuration [] = NaN \<and>
   card_average (dashboard (loader_run (Some ''7'') [Settled 0 (Fulfilled [] None)])) = ''NaN sec''"
  by (simp add: CampaignAnalytics_def dashboard_def loader_run_def useCampaignData_def
      fetchData_def settle_def averageCallDurationCard_def averageCallDuration_def
      js_divide_def durationSum_def totalCalls_def)

text \<open>
  C8. Grouping a list of two logs, the first with a null disconnection reason and the second
  with the reason \<^verbatim>\<open>completed\<close>, gives the counts \<^verbatim>\<open>Unknown\<close>: 1 and \<^verbatim>\<open>completed\<close>: 1,
  and the entries of the mapping come in that order.
\<close>

theorem group_null_and_completed:
  assumes "disconnection_reason l1 = None" and "disconnection_reason l2 = Some ''completed''"
  shows "disconnectionReasonData [l1, l2] = [(''Unknown'', 1), (''completed'', 1)] \<and>
         disconnectionReasonChartData [l1, l2] = [(''Unknown'', 1), (''completed'', 1)]"
  using assms
  by (simp add: disconnectionReasonChartData_def disconnectionReasonData_def count_label_def
      obj_get_or_zero_def or_string_def Object_entries_def is_array_index_def is_digit_def)

theorem group_null_and_completed_witness:
  "disconnection_reason (sample_log ''c1'' None (Some 12)) = None \<and>
   disconnection_reason (sample_log ''c2'' (Some ''completed'') None) = Some ''completed'' \<and>
   disconnectionReasonChartData
     [sample_log ''c1'' None (Some 12), sample_log ''c2'' (Some ''completed'') None] =
     [(''Unknown'', 1), (''completed'', 1)]"
  using group_null_and_completed
    [of "sample_log ''c1'' None (Some 12)" "sample_log ''c2'' (Some ''completed'') None"]
  by (simp add: sample_log_def)

text \<open>
  C2. The claim says that every missing value of an export record is the string \<^verbatim>\<open>N/A\<close>. Only
  the disconnection reason has that fallback. For a log in which all seven fields are missing,
  the other six values are not \<^verbatim>\<open>N/A\<close>: the duration is undefined and the rest are null.
\<close>

theorem export_missing_fields_counterexample:
  "call_duration (sample_log ''c1'' None None) = None \<and>
   user_sentiment (sample_log ''c1'' None None) = None \<and>
   start_time (sample_log ''c1'' None None) = None \<and>
   call_summary (sample_log ''c1'' None None) = None \<and>
   call_transcript (sample_log ''c1'' None None) = None \<and>
   call_recording (sample_log ''c1'' None None) = None \<and>
   Duration_sec (exportRecord (sample_log ''c1'' None None)) \<noteq> JString ''N/A'' \<and>
   Sentiment (exportRecord (sample_log ''c1'' None None)) \<noteq> JString ''N/A'' \<and>
   Start_Time (exportRecord (sample_log ''c1'' None None)) \<noteq> JString ''N/A'' \<and>
   Call_Summary (exportRecord (sample_log ''c1'' None None)) \<noteq> JString ''N/A'' \<and>
   Call_Transcript (exportRecord (sample_log ''c1'' None None)) \<noteq> JString ''N/A'' \<and>
   Call_Recording_URL (exportRecord (sample_log ''c1'' None None)) \<noteq> JString ''N/A''"
  by (simp add: exportRecord_def sample_log_def js_of_def)

text \<open>
  C2, as amended. In the export record of a log, a missing disconnection reason is the string
  \<^verbatim>\<open>N/A\<close>; a missing duration is undefined; a missing sentiment, start time, summary,
  transcript or recording URL is null.
\<close>

theorem export_missing_fields:
  "(disconnection_reason l = None \<longrightarrow> Disconnection_Reason (exportRecord l) = JString ''N/A'') \<and>
   (call_duration l = None \<longrightarrow> Duration_sec (exportRecord l) = JUndefined) \<and>
   (user_sentiment l = None \<longrightarrow> Sentiment (exportRecord l) = JNull) \<and>
   (start_time l = None \<longrightarrow> Start_Time (exportRecord l) = JNull) \<and>
   (call_summary l = None \<longrightarrow> Call_Summary (exportRecord l) = JNull) \<and>
   (call_transcript l = None \<longrightarrow> Call_Transcript (exportRecord l) = JNull) \<and>
   (call_recording l = None \<longrightarrow> Call_Recording_URL (exportRecord l) = JNull)"
  by (simp add: exportRecord_def js_of_def or_string_def)

theorem export_missing_fields_witness:
  "disconnection_reason (sample_log ''c1'' None None) = None \<and>
   call_duration (sample_log ''c1'' None None) = None \<and>
   user_sentiment (sample_log ''c1'' None None) = None \<and>
   start_time (sample_log ''c1'' None None) = None \<and>
   call_summary (sample_log ''c1'' None None) = None \<and>
   call_transcript (sample_log ''c1'' None None) = None \<and>
   call_recording (sample_log ''c1'' None None) = None \<and>
   Disconnection_Reason (exportRecord (sample_log ''c1'' None None)) = JString ''N/A'' \<and>
   Duration_sec (exportRecord (sample_log ''c1'' None None)) = JUndefined \<and>
   Sentiment (exportRecord (sample_log ''c1'' None None)) = JNull \<and>
   Start_Time (exportRecord (sample_log ''c1'' None None)) = JNull \<and>
   Call_Summary (exportRecord (sample_log ''c1'' None None)) = JNull \<and>
   Call_Transcript (exportRecord (sample_log ''c1'' None None)) = JNull \<and>
   Call_Recording_URL (exportRecord (sample_log ''c1'' None None)) = JNull"
  using export_missing_fields [of "sample_log ''c1'' None None"]
  by (simp add: sample_log_def)

text \<open>
  C3. In every state of the table, whatever the sort direction, the export builds one record
  per displayed row, in the order of the rows: the record at a position is the export record of
  the log behind the row at that position, and there are as many records as rows.
\<close>

theorem export_follows_display:
  "fst (handleExport today st) = map (\<lambda>r. exportRecord (onClick r)) (tbody st) \<and>
   length (fst (handleExport today st)) = length (tbody st) \<and>
   map Call_ID (fst (handleExport today st)) = map (\<lambda>r. JString (cells r ! 2)) (tbody st)"
  by (simp add: handleExport_def exportData_def tbody_def tableRow_def exportRecord_def comp_def)

text \<open>
  C4. In a state the table can reach in which the direction is none, the display is the fetched
  list. One activation of the sort control sets the direction to ascending and shows the logs in
  non-decreasing order of duration, a null duration counting as 0; a second sets it to
  descending and shows them in non-increasing order; a third sets it to none again and shows
  exactly the fetched list. Each of the sorted displays is a rearrangement of the fetched list.
\<close>

theorem sort_cycle:
  assumes "st = table_run logs evs" and "sortConfig st = None"
  shows "displayed st = fetched st \<and>
         sortConfig (handleSort st) = Some Asc \<and>
         sorted_wrt (\<lambda>x y. x \<le> y) (map (\<lambda>l. or_zero (call_duration l)) (displayed (handleSort st))) \<and>
         mset (displayed (handleSort st)) = mset (fetched st) \<and>
         sortConfig (handleSort (handleSort st)) = Some Desc \<and>
         sorted_wrt (\<lambda>x y. y \<le> x)
           (map (\<lambda>l. or_zero (call_duration l)) (displayed (handleSort (handleSort st)))) \<and>
         mset (displayed (handleSort (handleSort st))) = mset (fetched st) \<and>
         sortConfig (handleSort (handleSort (handleSort st))) = None \<and>
         displayed (handleSort (handleSort (handleSort st))) = fetched st \<and>
         fetched (handleSort (handleSort (handleSort st))) = fetched st"
proof -
  let ?s1 = "handleSort st" and ?s2 = "handleSort (handleSort st)"
  have key: "(\<lambda>l. or_zero (call_duration l)) = sort_value"
    by (simp add: sort_value_def fun_eq_iff)
  have i0: "table_inv st" using assms(1) by (simp add: table_inv_run)
  then have i1: "table_inv ?s1" by (rule table_inv_handleSort)
  then have i2: "table_inv ?s2" by (rule table_inv_handleSort)
  have v0: "valid_refs st" and v1: "valid_refs ?s1" and v2: "valid_refs ?s2"
    using i0 i1 i2 by (simp_all add: table_inv_def)
  have c1: "sortConfig ?s1 = Some Asc"
    using assms(2) by (simp add: sortConfig_handleSort)
  then have c2: "sortConfig ?s2 = Some Desc"
    by (simp add: sortConfig_handleSort)
  then have c3: "sortConfig (handleSort ?s2) = None"
    by (simp add: sortConfig_handleSort)
  have f1: "fetched ?s1 = fetched st" using v0 by (rule fetched_handleSort)
  have f2: "fetched ?s2 = fetched st" using v1 f1 by (simp add: fetched_handleSort)
  have f3: "fetched (handleSort ?s2) = fetched st" using v2 f2 by (simp add: fetched_handleSort)
  have d0: "displayed st = fetched st" using i0 assms(2) by (rule table_inv_None)
  have d1: "displayed ?s1 = Array_sort (compareLogs Asc) (fetched st)"
    using displayed_handleSort_inv [OF i0] assms(2) by simp
  have d2: "displayed ?s2 = Array_sort (compareLogs Desc) (fetched st)"
    using displayed_handleSort_inv [OF i1] c1 f1 by simp
  have d3: "displayed (handleSort ?s2) = fetched st"
    using displayed_handleSort_inv [OF i2] c2 f2 by simp
  show ?thesis
    unfolding key
    using c1 c2 c3 d0 d1 d2 d3 f3
    by (simp add: sorted_Array_sort_asc sorted_Array_sort_desc mset_Array_sort)
qed
theorem sort_cycle_witness:
  "sortConfig
     (table_run
        [sample_log ''c1'' None (Some 30), sample_log ''c2'' None None,
         sample_log ''c3'' None (Some 5)]
        [ClickSort, ClickSort, ClickSort]) = None \<and>
   displayed
     (handleSort
        (table_run
           [sample_log ''c1'' None (Some 30), sample_log ''c2'' None None,
            sample_log ''c3'' None (Some 5)]
           [ClickSort, ClickSort, ClickSort])) =
     [sample_log ''c2'' None None, sample_log ''c3'' None (Some 5),
      sample_log ''c1'' None (Some 30)] \<and>
   displayed
     (handleSort (handleSort
        (table_run
           [sample_log ''c1'' None (Some 30), sample_log ''c2'' None None,
            sample_log ''c3'' None (Some 5)]
           [ClickSort, ClickSort, ClickSort]))) =
     [sample_log ''c1'' None (Some 30), sample_log ''c3'' None (Some 5),
      sample_log ''c2'' None None] \<and>
   displayed
     (handleSort (handleSort (handleSort
        (table_run
           [sample_log ''c1'' None (Some 30), sample_log ''c2'' None None,
            sample_log ''c3'' None (Some 5)]
           [ClickSort, ClickSort, ClickSort])))) =
     [sample_log ''c1'' None (Some 30), sample_log ''c2'' None None,
      sample_log ''c3'' None (Some 5)]"
  using sort_cycle
    [OF refl,
     of "[sample_log ''c1'' None (Some 30), sample_log ''c2'' None None,
          sample_log ''c3'' None (Some 5)]"
        "[ClickSort, ClickSort, ClickSort]"]
  by (simp add: table_run_def mount_table_def handleSort_def Let_def next_direction_def
      Array_sort_def compareLogs_def or_zero_def sample_log_def displayed_def fetched_def)

text \<open>
  C5. After an activation of the sort control that leaves a direction set, in any state the
  table can reach, the display is the stable sort of the fetched list in that direction: a
  rearrangement of the fetched list, ordered by duration in that direction, in which the logs
  of equal duration key are in their fetch order. This holds whatever was displayed before.
\<close>

theorem sorted_display_is_stable_sort_of_fetched:
  assumes "st = handleSort (table_run logs evs)" and "sortConfig st = Some d"
  shows "stable_sort_of d (fetched st) (displayed st)"
proof -
  let ?s = "table_run logs evs"
  have inv: "table_inv ?s" by (rule table_inv_run)
  then have v: "valid_refs ?s" by (simp add: table_inv_def)
  have n: "next_direction (sortConfig ?s) = Some d"
    using assms by (simp add: sortConfig_handleSort)
  have "displayed st = Array_sort (compareLogs d) (fetched ?s)"
    using displayed_handleSort_inv [OF inv] n assms(1) by simp
  moreover have "fetched st = fetched ?s"
    using v assms(1) by (simp add: fetched_handleSort)
  ultimately show ?thesis
    by (simp add: stable_sort_of_Array_sort)
qed

theorem sorted_display_is_stable_sort_of_fetched_witness:
  "sortConfig
     (handleSort
        (table_run
           [sample_log ''c1'' None (Some 30), sample_log ''c2'' None None,
            sample_log ''c3'' None (Some 30), sample_log ''c4'' None (Some 0)]
           [ClickSort])) = Some Desc \<and>
   stable_sort_of Desc
     (fetched
        (handleSort
           (table_run
              [sample_log ''c1'' None (Some 30), sample_log ''c2'' None None,
               sample_log ''c3'' None (Some 30), sample_log ''c4'' None (Some 0)]
              [ClickSort])))
     (displayed
        (handleSort
           (table_run
              [sample_log ''c1'' None (Some 30), sample_log ''c2'' None None,
               sample_log ''c3'' None (Some 30), sample_log ''c4'' None (Some 0)]
              [ClickSort]))) \<and>
   displayed
     (handleSort
        (table_run
           [sample_log ''c1'' None (Some 30), sample_log ''c2'' None None,
            sample_log ''c3'' None (Some 30), sample_log ''c4'' None (Some 0)]
           [ClickSort])) =
     [sample_log ''c1'' None (Some 30), sample_log ''c3'' None (Some 30),
      sample_log ''c2'' None None, sample_log ''c4'' None (Some 0)]"
proof -
  let ?st = "handleSort
        (table_run
           [sample_log ''c1'' None (Some 30), sample_log ''c2'' None None,
            sample_log ''c3'' None (Some 30), sample_log ''c4'' None (Some 0)]
           [ClickSort])"
  have c: "sortConfig ?st = Some Desc"
    by (simp add: table_run_def mount_table_def sortConfig_handleSort)
  have d: "displayed ?st =
     [sample_log ''c1'' None (Some 30), sample_log ''c3'' None (Some 30),
      sample_log ''c2'' None None, sample_log ''c4'' None (Some 0)]"
    by (simp add: table_run_def mount_table_def handleSort_def Let_def next_direction_def
        Array_sort_def compareLogs_def or_zero_def sample_log_def displayed_def)
  from sorted_display_is_stable_sort_of_fetched [OF refl c] c d show ?thesis
    by simp
qed

text \<open>
  C6. The claim says that a change of the call-log list resets the display order and the sort
  direction. The effect that runs on the change sets only \<^verbatim>\<open>sortedLogs\<close>. After one
  activation of the sort control and then a new list, the display is the new list in fetch order
  and the direction is still ascending; the next activation therefore goes on to descending.
\<close>

theorem direction_not_reset_on_list_change:
  "displayed
     (table_run [sample_log ''c1'' None (Some 30), sample_log ''c2'' None (Some 5)]
        [ClickSort, CallLogsChanged [sample_log ''c3'' None (Some 9), sample_log ''c4'' None (Some 1)]]) =
     [sample_log ''c3'' None (Some 9), sample_log ''c4'' None (Some 1)] \<and>
   sortConfig
     (table_run [sample_log ''c1'' None (Some 30), sample_log ''c2'' None (Some 5)]
        [ClickSort, CallLogsChanged [sample_log ''c3'' None (Some 9), sample_log ''c4'' None (Some 1)]]) =
     Some Asc \<and>
   sortConfig
     (table_run [sample_log ''c1'' None (Some 30), sample_log ''c2'' None (Some 5)]
        [ClickSort, CallLogsChanged [sample_log ''c3'' None (Some 9), sample_log ''c4'' None (Some 1)],
         ClickSort]) =
     Some Desc"
  by (simp add: table_run_def mount_table_def sortConfig_handleSort sortConfig_callLogsChanged
      displayed_callLogsChanged)

text \<open>
  C9. The sort control never changes the source list. From a state whose addresses are valid,
  after any number of activations the prop \<^verbatim>\<open>callLogs\<close> is the same array with the same
  elements in the same order, and every array that existed before is unchanged: the sort works
  on the copy made by the spread.
\<close>

theorem handleSort_never_mutates_source:
  assumes "valid_refs st"
  shows "props_callLogs ((handleSort ^^ n) st) = props_callLogs st \<and>
         fetched ((handleSort ^^ n) st) = fetched st \<and>
         take (length (arrays st)) (arrays ((handleSort ^^ n) st)) = arrays st"
  using handleSort_funpow [OF assms, of n] by simp

theorem handleSort_never_mutates_source_witness:
  "valid_refs (mount_table [sample_log ''c1'' None (Some 30), sample_log ''c2'' None (Some 5)]) \<and>
   sortedLogs (mount_table [sample_log ''c1'' None (Some 30), sample_log ''c2'' None (Some 5)]) =
     props_callLogs (mount_table [sample_log ''c1'' None (Some 30), sample_log ''c2'' None (Some 5)]) \<and>
   fetched
     ((handleSort ^^ Suc (Suc 0))
        (mount_table [sample_log ''c1'' None (Some 30), sample_log ''c2'' None (Some 5)])) =
     [sample_log ''c1'' None (Some 30), sample_log ''c2'' None (Some 5)] \<and>
   displayed
     ((handleSort ^^ Suc 0)
        (mount_table [sample_log ''c1'' None (Some 30), sample_log ''c2'' None (Some 5)])) =
     [sample_log ''c2'' None (Some 5), sample_log ''c1'' None (Some 30)]"
proof -
  let ?m = "mount_table [sample_log ''c1'' None (Some 30), sample_log ''c2'' None (Some 5)]"
  have v: "valid_refs ?m" by (simp add: valid_refs_def mount_table_def)
  have a: "sortedLogs ?m = props_callLogs ?m" by (simp add: mount_table_def)
  have f: "fetched ?m = [sample_log ''c1'' None (Some 30), sample_log ''c2'' None (Some 5)]"
    by (simp add: fetched_def mount_table_def)
  have d: "displayed (handleSort ?m) =
      [sample_log ''c2'' None (Some 5), sample_log ''c1'' None (Some 30)]"
    by (simp add: mount_table_def handleSort_def Let_def next_direction_def
        Array_sort_def compareLogs_def or_zero_def sample_log_def displayed_def)
  from handleSort_never_mutates_source [OF v, of "Suc (Suc 0)"] v a f d show ?thesis
    by simp
qed

text \<open>
  C10. When the campaign identifier is undefined and stays so, the loader issues no request
  and \<^verbatim>\<open>loading\<close> stays true in every later state, so the page shows the loading indicator
  and neither a dashboard nor the error panel.
\<close>

theorem undefined_id_loads_forever:
  assumes "list_all keeps_id_undefined evs"
  shows "loading (loader_run None evs) \<and>
         issued (loader_run None evs) = [] \<and>
         CampaignAnalytics (loader_run None evs) = LoadingIndicator"
  using loader_idle_foldl [OF assms loader_idle_initial]
  by (simp add: loader_run_def loader_idle_def CampaignAnalytics_def)

theorem undefined_id_loads_forever_witness:
  "list_all keeps_id_undefined [Settled 0 Rejected, IdChanged None, Settled 1 (Fulfilled [] None)] \<and>
   loading (loader_run None [Settled 0 Rejected, IdChanged None, Settled 1 (Fulfilled [] None)]) \<and>
   CampaignAnalytics
     (loader_run None [Settled 0 Rejected, IdChanged None, Settled 1 (Fulfilled [] None)]) =
     LoadingIndicator"
  using undefined_id_loads_forever
    [of "[Settled 0 Rejected, IdChanged None, Settled 1 (Fulfilled [] None)]"]
  by simp

end
